theory Spec2Isabelle
  imports Main "HOL-Library.Word" "HOL-Library.Signed_Division"
begin

section \<open>Basic types\<close>

text \<open>
  Task identities, epochs, store indices and TTLs are Go \<open>uint64\<close>; a
  \<open>time.Duration\<close> is an \<open>int64\<close> counting nanoseconds, read with \<^const>\<open>sint\<close>.
\<close>

type_synonym uint64 = "64 word"
type_synonym int64 = "64 word"

text \<open>\<open>taskRole\<close> of \<open>framework.go\<close>: \<open>noneRole\<close>, \<open>parentRole\<close>, \<open>childRole\<close> (iota order).\<close>

datatype taskRole = noneRole | parentRole | childRole

section \<open>Health monitor: the TTL of a heartbeat (\<open>pkg/etcdutil/healthy.go\<close>)\<close>

text \<open>\<open>time.Second\<close>, in nanoseconds.\<close>

definition Second :: int where
  "Second = 1000000000"

text \<open>
  Go's conversion \<open>uint64(x)\<close> of a \<open>float64\<close> whose value is an integer. A value in
  range converts exactly; for a value out of range the language leaves the result to the
  implementation, which is the parameter \<open>conv\<close>.
\<close>

definition uint64_of_float64 :: "(int \<Rightarrow> uint64) \<Rightarrow> int \<Rightarrow> uint64" where
  "uint64_of_float64 conv x = (if 0 \<le> x \<and> x < 2 ^ 64 then word_of_int x else conv x)"

text \<open>
  \<^verbatim>\<open>return uint64(math.Min(5*float64(interval/time.Second), 1))\<close>

  \<open>interval/time.Second\<close> is Go's integer division on \<open>int64\<close>, which truncates towards
  zero (\<open>sdiv\<close> on \<open>int\<close>); its magnitude is below \<open>2 ^ 34\<close>, so the conversion to
  \<open>float64\<close>, the product with 5 and \<open>math.Min\<close> are exact, and the \<open>float64\<close> values
  of this function are the integers computed here.
\<close>

definition computeTTL :: "(int \<Rightarrow> uint64) \<Rightarrow> int64 \<Rightarrow> uint64" where
  "computeTTL conv interval =
     uint64_of_float64 conv (min (5 * (sint interval sdiv Second)) 1)"

section \<open>Topology and role classification (\<open>framework.go\<close>)\<close>

text \<open>
  The \<open>Topology\<close> interface as the framework calls it: \<open>SetTaskID\<close> fixes the observer,
  \<open>GetParents\<close> and \<open>GetChildren\<close> give its neighbours at an epoch, as Go slices (order
  and duplicates kept). The interface is implemented by the application; an implementation
  is the pair of functions \<open>parentsOf\<close> and \<open>childrenOf\<close>, of the observer and the epoch.
\<close>

record Topology =
  observer :: uint64
  parentsOf :: "uint64 \<Rightarrow> uint64 \<Rightarrow> uint64 list"
  childrenOf :: "uint64 \<Rightarrow> uint64 \<Rightarrow> uint64 list"

definition SetTaskID :: "uint64 \<Rightarrow> Topology \<Rightarrow> Topology" where
  "SetTaskID tid t = t\<lparr>observer := tid\<rparr>"

definition GetParents :: "Topology \<Rightarrow> uint64 \<Rightarrow> uint64 list" where
  "GetParents t e = parentsOf t (observer t) e"

definition GetChildren :: "Topology \<Rightarrow> uint64 \<Rightarrow> uint64 list" where
  "GetChildren t e = childrenOf t (observer t) e"

text \<open>
  One \<open>for _, id := range ids { if taskID == id { return role } }\<close> loop of
  \<open>parentOrChild\<close>: whether the scan returns.
\<close>

fun scan :: "uint64 \<Rightarrow> uint64 list \<Rightarrow> bool" where
  "scan taskID [] = False"
| "scan taskID (i # ids) = (if taskID = i then True else scan taskID ids)"

text \<open>
  The \<open>Task\<close> interface. The two serving methods return the bytes of a response; the
  other methods are called for their effect, and a call is recorded as a \<open>task_call\<close>.
\<close>

type_synonym bytes = "8 word list"

record Task =
  ServeAsParent :: "uint64 \<Rightarrow> string \<Rightarrow> bytes"
  ServeAsChild :: "uint64 \<Rightarrow> string \<Rightarrow> bytes"

datatype task_call =
    CallSetEpoch uint64
  | CallInit uint64
  | CallParentMetaReady uint64 string
  | CallChildMetaReady uint64 string
  | CallServeAsParent uint64 string
  | CallServeAsChild uint64 string

text \<open>
  The \<open>framework\<close> struct. A channel is its address in the table of channels of the
  process. The pointer \<open>etcdClient\<close> is nil (\<open>None\<close>) until \<open>start\<close> sets it to a client
  of \<open>etcdURLs\<close>. The fields \<open>ln\<close> and \<open>addressMap\<close> belong to the data requests
  that a task sends, which are not modelled.
\<close>

type_synonym chan = nat

record framework =
  name :: string
  etcdURLs :: "string list"
  task :: Task
  topology :: Topology
  taskID :: uint64
  epoch :: uint64
  etcdClient :: "string list option"
  stops :: "chan list"
  dataRespChan :: chan

definition GetTaskID :: "framework \<Rightarrow> uint64" where
  "GetTaskID f = taskID f"

definition SetEpoch :: "uint64 \<Rightarrow> framework \<Rightarrow> framework" where
  "SetEpoch e f = f\<lparr>epoch := e\<rparr>"

text \<open>\<open>parentOrChild\<close>: the parent list is scanned first, then the child list.\<close>

definition parentOrChild :: "framework \<Rightarrow> uint64 \<Rightarrow> taskRole" where
  "parentOrChild f tid =
     (if scan tid (GetParents (topology f) (epoch f)) then parentRole
      else if scan tid (GetChildren (topology f) (epoch f)) then childRole
      else noneRole)"

section \<open>The coordination store as the code sees it\<close>

text \<open>
  The store client (\<open>go-etcd\<close>) is not part of the repository. Of a response the code
  reads \<open>Action\<close>, \<open>EtcdIndex\<close> and \<open>Node.Value\<close>; \<open>Node\<close> is a pointer, \<open>None\<close>
  when it is nil. A response carries two indices: \<open>Node.ModifiedIndex\<close> is the index of
  the change that the response reports (the event's index), and \<open>EtcdIndex\<close> is the index
  of the store that the response's header reports; the code reads the second only.
  A call returns a response or an error.
\<close>

record Node =
  Value :: string
  ModifiedIndex :: uint64

record Response =
  Action :: string
  Node :: "Node option"
  EtcdIndex :: uint64

datatype etcd_error =
    KeyNotFound
  | StoreUnavailable
  | ClientClosed
  | WatchStoppedByUser
  | OtherError string

type_synonym outcome = "etcd_error + Response"

text \<open>Go's \<open>strconv.FormatUint(n, 10)\<close>.\<close>

fun FormatUint :: "nat \<Rightarrow> string" where
  "FormatUint n =
     (if n < 10 then [''0123456789'' ! n]
      else FormatUint (n div 10) @ [''0123456789'' ! (n mod 10)])"

declare FormatUint.simps [simp del]

text \<open>
  Modelled from the spec: \<open>HealthyPath\<close> is called by \<open>healthy.go\<close> and defined in a
  file that is not among the sources; the spec gives the liveness path \<open>/health/{N}/{T}\<close>
  for job name \<open>N\<close> and task \<open>T\<close>.
\<close>

definition HealthyPath :: "string \<Rightarrow> uint64 \<Rightarrow> string" where
  "HealthyPath nm tid = ''/health/'' @ nm @ ''/'' @ FormatUint (unat tid)"

text \<open>
  Modelled from the spec: \<open>MakeParentMetaPath\<close> is called by \<open>framework.go\<close> and defined
  in a file that is not among the sources; the spec gives the as-parent-signal path
  \<open>/parentMeta/{N}/{T}\<close>.
\<close>

definition MakeParentMetaPath :: "string \<Rightarrow> uint64 \<Rightarrow> string" where
  "MakeParentMetaPath nm tid = ''/parentMeta/'' @ nm @ ''/'' @ FormatUint (unat tid)"

text \<open>
  Modelled from the spec: \<open>MakeChildMetaPath\<close>, missing like \<open>MakeParentMetaPath\<close>; the
  spec gives the as-child-signal path \<open>/childMeta/{N}/{T}\<close>.
\<close>

definition MakeChildMetaPath :: "string \<Rightarrow> uint64 \<Rightarrow> string" where
  "MakeChildMetaPath nm tid = ''/childMeta/'' @ nm @ ''/'' @ FormatUint (unat tid)"

section \<open>Health monitor: failure detection (\<open>pkg/etcdutil/healthy.go\<close>)\<close>

text \<open>
  \<open>DetectFailure\<close> talks to the store through \<open>client.Get\<close> once and \<open>client.Watch\<close>
  in a loop. The store's side is the outcome of the read and the outcomes of the
  successive watch calls, in order; a watch call for which the list has no outcome never
  returns (\<open>Watch\<close> blocks until an event, an error or the stop signal, and the stop
  signal makes it return an error). The function's side is what it returns, \<open>None\<close> when
  it is blocked for ever, and the watch calls it made: path and \<open>waitIndex\<close> of each.
\<close>

type_synonym watch_call = "string \<times> uint64"
type_synonym detect_result = "(uint64 \<times> etcd_error option) option"

text \<open>
  The \<open>for\<close> loop of \<open>DetectFailure\<close>, entered with the current \<open>waitIndex\<close>:
  \<^verbatim>\<open>
  resp, err = client.Watch(key, waitIndex, false, nil, stop)
  if err != nil { return 0, err }
  if resp.Action == "delete" || resp.Action == "expire" { return taskID, nil }
  waitIndex = resp.EtcdIndex + 1
  \<close>
\<close>

fun watchLoop :: "uint64 \<Rightarrow> string \<Rightarrow> uint64 \<Rightarrow> outcome list \<Rightarrow> watch_call list \<times> detect_result" where
  "watchLoop tid key waitIndex [] = ([(key, waitIndex)], None)"
| "watchLoop tid key waitIndex (Inl err # rest) = ([(key, waitIndex)], Some (0, Some err))"
| "watchLoop tid key waitIndex (Inr resp # rest) =
     (if Action resp = ''delete'' \<or> Action resp = ''expire''
      then ([(key, waitIndex)], Some (tid, None))
      else (let (calls, r) = watchLoop tid key (EtcdIndex resp + 1) rest
            in ((key, waitIndex) # calls, r)))"

text \<open>
  \<open>DetectFailure(client, name, taskID, stop)\<close>; \<open>got\<close> is the outcome of
  \<open>client.Get(key, false, false)\<close> and \<open>watched\<close> the outcomes of the watch calls.
\<close>

definition DetectFailure :: "outcome \<Rightarrow> outcome list \<Rightarrow> string \<Rightarrow> uint64 \<Rightarrow> watch_call list \<times> detect_result" where
  "DetectFailure got watched nm tid =
     (let key = HealthyPath nm tid
      in case got of
           Inl err \<Rightarrow> ([], Some (tid, None))
         | Inr resp \<Rightarrow> watchLoop tid key (EtcdIndex resp + 1) watched)"

section \<open>The framework (\<open>framework.go\<close>)\<close>

text \<open>
  What a framework changes outside its own struct: the channels of the process (a Go
  channel is open until \<open>close\<close>), the goroutines it has spawned, the writes it has sent
  to the store, and the calls it has made on the task's effectful methods.
\<close>

datatype chan_state = Open | Closed

text \<open>
  The goroutines: \<open>GoWatch path i receiver stop\<close> is
  \<open>go f.etcdClient.Watch(path, i, false, receiver, stop)\<close>, which sends the events of
  \<open>path\<close> to \<open>receiver\<close> until \<open>stop\<close>; \<open>GoReceive cb taskID receiver\<close> is the loop of
  \<open>watchAll\<close> that reads \<open>receiver\<close> and calls the task's method \<open>cb\<close> for \<open>taskID\<close>
  (\<open>receiverLoop\<close> below); the other two are started by \<open>start\<close>.
\<close>

datatype metaCallback = ParentMetaReady | ChildMetaReady

datatype goroutine =
    GoWatch string uint64 chan chan
  | GoReceive metaCallback uint64 chan
  | GoHttpServerForDataRequest
  | GoDataResponseEventLoop

datatype store_op =
    OpCreate string string uint64
  | OpSet string string uint64

record world =
  chans :: "chan_state list"
  goroutines :: "goroutine list"
  storeOps :: "store_op list"
  taskCalls :: "task_call list"

datatype error = Panic string | Fatal string

text \<open>\<open>make(chan ...)\<close>: a fresh open channel.\<close>

definition make_chan :: "world \<Rightarrow> chan \<times> world" where
  "make_chan w = (length (chans w), w\<lparr>chans := chans w @ [Open]\<rparr>)"

text \<open>
  \<open>close(c)\<close>: Go panics when the channel is nil (here: not in the table) or already
  closed.
\<close>

definition close_chan :: "chan \<Rightarrow> world \<Rightarrow> error + world" where
  "close_chan c w =
     (if length (chans w) \<le> c then Inl (Panic ''close of nil channel'')
      else if chans w ! c = Open then Inr (w\<lparr>chans := (chans w)[c := Closed]\<rparr>)
      else Inl (Panic ''close of closed channel''))"

text \<open>The method of the task that a \<open>taskCallback\<close> of \<open>watchAll\<close> stands for.\<close>

fun taskCallback :: "metaCallback \<Rightarrow> uint64 \<Rightarrow> string \<Rightarrow> task_call" where
  "taskCallback ParentMetaReady tid v = CallParentMetaReady tid v"
| "taskCallback ChildMetaReady tid v = CallChildMetaReady tid v"

text \<open>
  The goroutine that \<open>watchAll\<close> starts on a \<open>receiver\<close> channel, run on the responses
  the channel delivers before it is closed:
  \<^verbatim>\<open>
  resp, ok := <-receiver
  if !ok { return }
  if resp.Action != "set" { continue }
  taskCallback(taskID, resp.Node.Value)
  \<close>
  It gives the calls made on the task and \<open>None\<close> when it returns; \<open>resp.Node.Value\<close>
  on a nil \<open>Node\<close> is a panic.
\<close>

fun receiverLoop :: "metaCallback \<Rightarrow> uint64 \<Rightarrow> Response list \<Rightarrow> task_call list \<times> error option" where
  "receiverLoop cb tid [] = ([], None)"
| "receiverLoop cb tid (resp # rest) =
     (if Action resp \<noteq> ''set'' then receiverLoop cb tid rest
      else case Node resp of
             None \<Rightarrow> ([], Some (Panic ''nil pointer dereference''))
           | Some n \<Rightarrow>
               (let (calls, r) = receiverLoop cb tid rest
                in (taskCallback cb tid (Value n) # calls, r)))"

text \<open>
  The \<open>switch who\<close> of \<open>watchAll\<close>: the path to watch and the callback, \<open>None\<close> in the
  \<open>default\<close> case, which panics.
\<close>

definition watchSwitch :: "framework \<Rightarrow> taskRole \<Rightarrow> uint64 \<Rightarrow> (string \<times> metaCallback) option" where
  "watchSwitch f who tid =
     (case who of
        parentRole \<Rightarrow> Some (MakeChildMetaPath (name f) tid, ParentMetaReady)
      | childRole \<Rightarrow> Some (MakeParentMetaPath (name f) tid, ChildMetaReady)
      | noneRole \<Rightarrow> None)"

text \<open>
  \<open>watchAll(who, taskIDs)\<close>: per task two channels, the \<open>switch\<close>, then the two
  goroutines (\<open>etcdClient.Watch(watchPath, 0, false, receiver, stop)\<close> and the loop
  above). It returns the stop channels in the order of \<open>taskIDs\<close>.
\<close>

fun watchAll :: "framework \<Rightarrow> taskRole \<Rightarrow> uint64 list \<Rightarrow> world \<Rightarrow> error + chan list \<times> world" where
  "watchAll f who [] w = Inr ([], w)"
| "watchAll f who (tid # tids) w =
     (let (receiver, w1) = make_chan w;
          (stopc, w2) = make_chan w1
      in case watchSwitch f who tid of
           None \<Rightarrow> Inl (Panic ''unimplemented'')
         | Some (watchPath, cb) \<Rightarrow>
             (case watchAll f who tids
                     (w2\<lparr>goroutines := goroutines w2 @
                          [GoWatch watchPath 0 receiver stopc, GoReceive cb tid receiver]\<rparr>) of
                Inl e \<Rightarrow> Inl e
              | Inr (cs, w3) \<Rightarrow> Inr (stopc # cs, w3)))"

text \<open>
  \<open>start()\<close>. The results of the two \<open>etcdClient.Create\<close> calls are discarded by the
  code, so their errors change nothing.
\<close>

definition start :: "framework \<Rightarrow> world \<Rightarrow> error + framework \<times> world" where
  "start f w =
     (let (respChan, w0) = make_chan w;
          f1 = f\<lparr>etcdClient := Some (etcdURLs f),
                 topology := SetTaskID (taskID f) (topology f), epoch := 0, stops := [],
                 dataRespChan := respChan\<rparr>;
          w1 = w0\<lparr>storeOps := storeOps w0 @
                 [OpCreate (MakeParentMetaPath (name f1) (GetTaskID f1)) [] 0,
                  OpCreate (MakeChildMetaPath (name f1) (GetTaskID f1)) [] 0]\<rparr>
      in case watchAll f1 parentRole (GetParents (topology f1) (epoch f1)) w1 of
           Inl e \<Rightarrow> Inl e
         | Inr (parentStops, w2) \<Rightarrow>
             (case watchAll f1 childRole (GetChildren (topology f1) (epoch f1)) w2 of
                Inl e \<Rightarrow> Inl e
              | Inr (childStops, w3) \<Rightarrow>
                  (let f2 = f1\<lparr>stops := stops f1 @ parentStops\<rparr>;
                       f3 = f2\<lparr>stops := stops f2 @ childStops\<rparr>;
                       w4 = w3\<lparr>goroutines := goroutines w3 @
                              [GoHttpServerForDataRequest, GoDataResponseEventLoop],
                            taskCalls := taskCalls w3 @
                              [CallSetEpoch (epoch f3), CallInit (taskID f3)]\<rparr>
                   in Inr (f3, w4))))"

text \<open>
  \<open>stop()\<close>: \<open>for _, c := range f.stops { close(c) }\<close>. A panic of \<open>close\<close> ends the
  process, so the result is then the panic alone.
\<close>

fun closeAll :: "chan list \<Rightarrow> world \<Rightarrow> error + world" where
  "closeAll [] w = Inr w"
| "closeAll (c # cs) w =
     (case close_chan c w of Inl e \<Rightarrow> Inl e | Inr w' \<Rightarrow> closeAll cs w')"

definition stop :: "framework \<Rightarrow> world \<Rightarrow> error + world" where
  "stop f w = closeAll (stops f) w"

text \<open>\<open>Exit()\<close>: the body of the method is empty.\<close>

definition Exit :: "framework \<Rightarrow> world \<Rightarrow> framework \<times> world" where
  "Exit f w = (f, w)"

text \<open>
  \<open>FlagParentMetaReady(meta)\<close> and \<open>FlagChildMetaReady(meta)\<close>: one
  \<open>f.etcdClient.Set(path, meta, 0)\<close>, whose result the code discards. On a framework
  that has not started the client is nil and the call panics, with nothing written.
\<close>

definition FlagParentMetaReady :: "framework \<Rightarrow> string \<Rightarrow> world \<Rightarrow> error + world" where
  "FlagParentMetaReady f meta w =
     (case etcdClient f of
        None \<Rightarrow> Inl (Panic ''nil pointer dereference'')
      | Some client \<Rightarrow>
          Inr (w\<lparr>storeOps := storeOps w @
                 [OpSet (MakeParentMetaPath (name f) (GetTaskID f)) meta 0]\<rparr>))"

definition FlagChildMetaReady :: "framework \<Rightarrow> string \<Rightarrow> world \<Rightarrow> error + world" where
  "FlagChildMetaReady f meta w =
     (case etcdClient f of
        None \<Rightarrow> Inl (Panic ''nil pointer dereference'')
      | Some client \<Rightarrow>
          Inr (w\<lparr>storeOps := storeOps w @
                 [OpSet (MakeChildMetaPath (name f) (GetTaskID f)) meta 0]\<rparr>))"

text \<open>
  Modelled from the spec: the coordination store is an external service. A write is a
  change of the written path at a fresh index \<open>i\<close>, and the store reports it to every
  watch on that path as a response whose action is \<open>set\<close> for a set and \<open>create\<close> for a
  create, whose node holds the written value, under some header index \<open>h\<close>.
\<close>

fun notification :: "store_op \<Rightarrow> uint64 \<Rightarrow> uint64 \<Rightarrow> string \<times> Response" where
  "notification (OpSet path v ttl) i h =
     (path, \<lparr>Action = ''set'', Node = Some \<lparr>Value = v, ModifiedIndex = i\<rparr>, EtcdIndex = h\<rparr>)"
| "notification (OpCreate path v ttl) i h =
     (path, \<lparr>Action = ''create'', Node = Some \<lparr>Value = v, ModifiedIndex = i\<rparr>, EtcdIndex = h\<rparr>)"

text \<open>
  How the goroutines of a process pass the responses on a path to the task. A
  \<open>GoWatch\<close> on the path sends them to its receiver channel until its stop channel is
  closed: \<open>liveWatchReceivers\<close> lists these channels, one entry per watch that has not
  been stopped. The \<open>GoReceive\<close> loops that read a channel are its readers. A channel
  with exactly one reader hands that loop every response sent to it, and the loop runs
  \<open>receiverLoop\<close>; with no reader nothing is called; with several readers Go does not
  fix which of them gets a response, which is \<open>None\<close>. \<open>deliver\<close> gives, for each
  live watch on the path, what the reader of its receiver does.
\<close>

definition stopped :: "chan_state list \<Rightarrow> chan \<Rightarrow> bool" where
  "stopped cs stopc \<longleftrightarrow> stopc < length cs \<and> cs ! stopc = Closed"

fun liveWatchReceivers :: "chan_state list \<Rightarrow> string \<Rightarrow> goroutine list \<Rightarrow> chan list" where
  "liveWatchReceivers cs path [] = []"
| "liveWatchReceivers cs path (GoWatch p i receiver stopc # gs) =
     (if p = path \<and> \<not> stopped cs stopc
      then receiver # liveWatchReceivers cs path gs
      else liveWatchReceivers cs path gs)"
| "liveWatchReceivers cs path (g # gs) = liveWatchReceivers cs path gs"

fun readersOf :: "chan \<Rightarrow> goroutine list \<Rightarrow> (metaCallback \<times> uint64) list" where
  "readersOf c [] = []"
| "readersOf c (GoReceive cb tid receiver # gs) =
     (if receiver = c then (cb, tid) # readersOf c gs else readersOf c gs)"
| "readersOf c (g # gs) = readersOf c gs"

definition receive :: "world \<Rightarrow> chan \<Rightarrow> Response list \<Rightarrow> (task_call list \<times> error option) option" where
  "receive w c resps =
     (case readersOf c (goroutines w) of
        [] \<Rightarrow> Some ([], None)
      | [(cb, tid)] \<Rightarrow> Some (receiverLoop cb tid resps)
      | _ \<Rightarrow> None)"

definition deliver :: "world \<Rightarrow> string \<Rightarrow> Response list \<Rightarrow> (task_call list \<times> error option) option list" where
  "deliver w path resps =
     map (\<lambda>c. receive w c resps) (liveWatchReceivers (chans w) path (goroutines w))"

text \<open>
  The handler of \<open>newDataReqHandler\<close> on the query parameters \<open>taskID\<close> and \<open>req\<close>.
  \<open>strconv.ParseUint(fromIDStr, 0, 64)\<close> is the standard library's and is the parameter
  \<open>ParseUint\<close>, \<open>None\<close> when it returns an error. \<open>log.Fatalf\<close> ends the process; a
  panic in a handler ends the request with nothing written. The result is the calls made
  on the task and the bytes passed to \<open>w.Write\<close>.
\<close>

definition dataReqHandler ::
  "(string \<Rightarrow> uint64 option) \<Rightarrow> framework \<Rightarrow> string \<Rightarrow> string \<Rightarrow> error + task_call list \<times> bytes" where
  "dataReqHandler ParseUint f fromIDStr req =
     (case ParseUint fromIDStr of
        None \<Rightarrow> Inl (Fatal (''taskID in query couldn't be parsed: '' @ fromIDStr))
      | Some fromID \<Rightarrow>
          (case parentOrChild f fromID of
             parentRole \<Rightarrow> Inr ([CallServeAsChild fromID req], ServeAsChild (task f) fromID req)
           | childRole \<Rightarrow> Inr ([CallServeAsParent fromID req], ServeAsParent (task f) fromID req)
           | noneRole \<Rightarrow> Inl (Panic ''unimplemented'')))"

section \<open>Statement vocabulary and example inputs\<close>


text \<open>
  A response that reports the change of index \<open>i\<close> under the header index \<open>h\<close>, and one
  whose two indices agree.
\<close>

definition watchEvent :: "string \<Rightarrow> string \<Rightarrow> uint64 \<Rightarrow> uint64 \<Rightarrow> Response" where
  "watchEvent act v i h = \<lparr>Action = act, Node = Some \<lparr>Value = v, ModifiedIndex = i\<rparr>, EtcdIndex = h\<rparr>"

definition event :: "string \<Rightarrow> string \<Rightarrow> uint64 \<Rightarrow> Response" where
  "event act v i = watchEvent act v i i"

text \<open>
  Closed forms of what \<open>watchAll\<close> creates from the first free channel \<open>n\<close> on: the
  goroutines, the stop channels, and the receiver channels of the watches for task \<open>a\<close>.
\<close>

fun spawned :: "nat \<Rightarrow> (uint64 \<Rightarrow> string) \<Rightarrow> metaCallback \<Rightarrow> uint64 list \<Rightarrow> goroutine list" where
  "spawned n pf cb [] = []"
| "spawned n pf cb (tid # tids) =
     GoWatch (pf tid) 0 n (Suc n) # GoReceive cb tid n # spawned (Suc (Suc n)) pf cb tids"

fun stopsFrom :: "nat \<Rightarrow> uint64 list \<Rightarrow> chan list" where
  "stopsFrom n [] = []"
| "stopsFrom n (tid # tids) = Suc n # stopsFrom (Suc (Suc n)) tids"

fun receiversFor :: "nat \<Rightarrow> uint64 \<Rightarrow> uint64 list \<Rightarrow> chan list" where
  "receiversFor n a [] = []"
| "receiversFor n a (tid # tids) =
     (if tid = a then n # receiversFor (Suc (Suc n)) a tids else receiversFor (Suc (Suc n)) a tids)"

text \<open>The value of a decimal numeral, to tell apart the paths of two tasks.\<close>

definition digitValue :: "char \<Rightarrow> nat" where
  "digitValue c = of_char c - 48"

definition decimalValue :: "string \<Rightarrow> nat" where
  "decimalValue ds = foldl (\<lambda>acc d. 10 * acc + digitValue d) 0 ds"

definition exampleTask :: Task where
  "exampleTask = \<lparr>ServeAsParent = (\<lambda>_ _. [1]), ServeAsChild = (\<lambda>_ _. [2])\<rparr>"

text \<open>A framework of job \<open>job\<close>, task 1, with the given parents and children per epoch.\<close>

definition exampleFramework :: "(uint64 \<Rightarrow> uint64 list) \<Rightarrow> (uint64 \<Rightarrow> uint64 list) \<Rightarrow> framework" where
  "exampleFramework ps cs =
     \<lparr>name = ''job'', etcdURLs = [''http://localhost:4001''], task = exampleTask,
      topology = \<lparr>observer = 0, parentsOf = (\<lambda>_. ps), childrenOf = (\<lambda>_. cs)\<rparr>,
      taskID = 1, epoch = 0, etcdClient = None, stops = [], dataRespChan = 0\<rparr>"

definition emptyWorld :: world where
  "emptyWorld = \<lparr>chans = [], goroutines = [], storeOps = [], taskCalls = []\<rparr>"

text \<open>A stand-in for \<open>strconv.ParseUint\<close> that reads the strings \<open>2\<close>, \<open>3\<close> and \<open>4\<close>.\<close>

definition exampleParseUint :: "string \<Rightarrow> uint64 option" where
  "exampleParseUint s =
     (if s = ''2'' then Some 2 else if s = ''3'' then Some 3 else if s = ''4'' then Some 4 else None)"

section \<open>Properties\<close>

subsection \<open>Heartbeat TTL\<close>

lemma computeTTL_positive:
  "0 < sint i \<Longrightarrow> computeTTL conv i = (if sint i < Second then 0 else 1)"
  by (simp add: computeTTL_def uint64_of_float64_def Second_def signed_divide_int_def)

text \<open>
  C1. The claim: for every heartbeat interval \<open>i > 0\<close> the TTL of the health record is
  at least \<open>i\<close>, about five times the interval. The code takes the minimum of
  \<open>5 * seconds\<close> and 1: at an interval of two seconds (\<open>2000000000\<close> nanoseconds) the TTL
  is one second, which is less than the interval.
\<close>

theorem computeTTL_two_seconds:
  "computeTTL conv 2000000000 = 1 \<and>
   uint (computeTTL conv 2000000000) * Second < sint (2000000000 :: int64)"
  by (simp add: computeTTL_def uint64_of_float64_def Second_def signed_divide_int_def)

subsection \<open>Role classification\<close>

lemma scan_iff: "scan tid ids \<longleftrightarrow> tid \<in> set ids"
  by (induction ids) auto

lemma parentOrChild_eq:
  "parentOrChild f tid =
     (if tid \<in> set (GetParents (topology f) (epoch f)) then parentRole
      else if tid \<in> set (GetChildren (topology f) (epoch f)) then childRole
      else noneRole)"
  by (simp add: parentOrChild_def scan_iff)

subsection \<open>Failure detection\<close>








text \<open>
  C4. When the health record of the task does not exist at the call, the initial read
  fails (key not found) and \<open>DetectFailure\<close> returns the identity at once: it makes no
  watch call, and it returns whatever the watch calls would have done, also when they
  would have blocked for ever.
\<close>

theorem DetectFailure_absent_record:
  "DetectFailure (Inl KeyNotFound) watched nm tid = ([], Some (tid, None))"
  by (simp add: DetectFailure_def)

text \<open>
  C10. Whatever error the initial read returns (store unavailable, client closed, any
  other), \<open>DetectFailure\<close> returns the identity and no error, without a watch call: the
  same result as for an absent health record.
\<close>

theorem DetectFailure_read_error:
  "DetectFailure (Inl err) watched nm tid = ([], Some (tid, None)) \<and>
   DetectFailure (Inl err) watched nm tid = DetectFailure (Inl KeyNotFound) watched nm tid"
  by (simp add: DetectFailure_def)

subsection \<open>Role classification of a subject\<close>

text \<open>
  C9. \<open>parentOrChild\<close> gives one role to every subject: parent when the subject is in the
  parent list of the epoch, child when it is in the child list and not in the parent list,
  none when it is in neither. A subject in both lists is a parent, and so not a child.
\<close>

theorem parentOrChild_parent_first:
  "(tid \<in> set (GetParents (topology f) (epoch f)) \<longrightarrow> parentOrChild f tid = parentRole) \<and>
   (tid \<notin> set (GetParents (topology f) (epoch f)) \<and> tid \<in> set (GetChildren (topology f) (epoch f)) \<longrightarrow>
      parentOrChild f tid = childRole) \<and>
   (tid \<notin> set (GetParents (topology f) (epoch f)) \<and> tid \<notin> set (GetChildren (topology f) (epoch f)) \<longrightarrow>
      parentOrChild f tid = noneRole) \<and>
   (tid \<in> set (GetParents (topology f) (epoch f)) \<and> tid \<in> set (GetChildren (topology f) (epoch f)) \<longrightarrow>
      parentOrChild f tid = parentRole \<and> parentOrChild f tid \<noteq> childRole)"
  by (simp add: parentOrChild_eq)

theorem parentOrChild_parent_first_witness:
  "parentOrChild (exampleFramework (\<lambda>_. [2, 3]) (\<lambda>_. [3, 4])) 2 = parentRole \<and>
   parentOrChild (exampleFramework (\<lambda>_. [2, 3]) (\<lambda>_. [3, 4])) 3 = parentRole \<and>
   parentOrChild (exampleFramework (\<lambda>_. [2, 3]) (\<lambda>_. [3, 4])) 4 = childRole \<and>
   parentOrChild (exampleFramework (\<lambda>_. [2, 3]) (\<lambda>_. [3, 4])) 5 = noneRole"
  using parentOrChild_parent_first [of 2 "exampleFramework (\<lambda>_. [2, 3]) (\<lambda>_. [3, 4])"]
    parentOrChild_parent_first [of 3 "exampleFramework (\<lambda>_. [2, 3]) (\<lambda>_. [3, 4])"]
    parentOrChild_parent_first [of 4 "exampleFramework (\<lambda>_. [2, 3]) (\<lambda>_. [3, 4])"]
    parentOrChild_parent_first [of 5 "exampleFramework (\<lambda>_. [2, 3]) (\<lambda>_. [3, 4])"]
  by (simp add: exampleFramework_def GetParents_def GetChildren_def)

subsection \<open>Serving a data request\<close>

text \<open>
  C7. Let the parent list and the child list of the server at its current epoch have no
  task in common (a task is not both parent and child of one observer). Then for every
  request: when its origin is in the parent list it is served by \<open>ServeAsChild\<close>, when
  its origin is in the child list it is served by \<open>ServeAsParent\<close>, and when its origin
  is in neither list the handler panics, with no call on the task and nothing written. A
  request whose origin cannot be parsed is not served either.
\<close>

theorem dataReqHandler_by_role:
  assumes "set (GetParents (topology f) (epoch f)) \<inter> set (GetChildren (topology f) (epoch f)) = {}"
  shows "(\<forall>fromID. ParseUint fromIDStr = Some fromID \<longrightarrow>
            (fromID \<in> set (GetParents (topology f) (epoch f)) \<longrightarrow>
               dataReqHandler ParseUint f fromIDStr req =
                 Inr ([CallServeAsChild fromID req], ServeAsChild (task f) fromID req)) \<and>
            (fromID \<in> set (GetChildren (topology f) (epoch f)) \<longrightarrow>
               dataReqHandler ParseUint f fromIDStr req =
                 Inr ([CallServeAsParent fromID req], ServeAsParent (task f) fromID req)) \<and>
            (fromID \<notin> set (GetParents (topology f) (epoch f)) \<and>
             fromID \<notin> set (GetChildren (topology f) (epoch f)) \<longrightarrow>
               dataReqHandler ParseUint f fromIDStr req = Inl (Panic ''unimplemented''))) \<and>
         (ParseUint fromIDStr = None \<longrightarrow>
            dataReqHandler ParseUint f fromIDStr req =
              Inl (Fatal (''taskID in query couldn't be parsed: '' @ fromIDStr)))"
proof (intro conjI allI impI)
  fix fromID
  assume p: "ParseUint fromIDStr = Some fromID"
  show "dataReqHandler ParseUint f fromIDStr req =
          Inr ([CallServeAsChild fromID req], ServeAsChild (task f) fromID req)"
    if "fromID \<in> set (GetParents (topology f) (epoch f))"
    using p that by (simp add: dataReqHandler_def parentOrChild_eq)
  show "dataReqHandler ParseUint f fromIDStr req =
          Inr ([CallServeAsParent fromID req], ServeAsParent (task f) fromID req)"
    if "fromID \<in> set (GetChildren (topology f) (epoch f))"
  proof -
    from that assms have "fromID \<notin> set (GetParents (topology f) (epoch f))"
      by blast
    with p that show ?thesis
      by (simp add: dataReqHandler_def parentOrChild_eq)
  qed
  show "dataReqHandler ParseUint f fromIDStr req = Inl (Panic ''unimplemented'')"
    if "fromID \<notin> set (GetParents (topology f) (epoch f)) \<and>
        fromID \<notin> set (GetChildren (topology f) (epoch f))"
    using p that by (simp add: dataReqHandler_def parentOrChild_eq)
next
  assume "ParseUint fromIDStr = None"
  then show "dataReqHandler ParseUint f fromIDStr req =
               Inl (Fatal (''taskID in query couldn't be parsed: '' @ fromIDStr))"
    by (simp add: dataReqHandler_def)
qed

theorem dataReqHandler_by_role_witness:
  "dataReqHandler exampleParseUint (exampleFramework (\<lambda>_. [2]) (\<lambda>_. [3])) ''2'' ''shard'' =
     Inr ([CallServeAsChild 2 ''shard''], [2]) \<and>
   dataReqHandler exampleParseUint (exampleFramework (\<lambda>_. [2]) (\<lambda>_. [3])) ''3'' ''shard'' =
     Inr ([CallServeAsParent 3 ''shard''], [1]) \<and>
   dataReqHandler exampleParseUint (exampleFramework (\<lambda>_. [2]) (\<lambda>_. [3])) ''4'' ''shard'' =
     Inl (Panic ''unimplemented'') \<and>
   dataReqHandler exampleParseUint (exampleFramework (\<lambda>_. [2]) (\<lambda>_. [3])) ''x'' ''shard'' =
     Inl (Fatal ''taskID in query couldn't be parsed: x'')"
proof -
  let ?f = "exampleFramework (\<lambda>_. [2]) (\<lambda>_. [3])"
  have d: "set (GetParents (topology ?f) (epoch ?f)) \<inter> set (GetChildren (topology ?f) (epoch ?f)) = {}"
    by (simp add: exampleFramework_def GetParents_def GetChildren_def)
  have p: "exampleParseUint ''2'' = Some 2" "exampleParseUint ''3'' = Some 3"
    "exampleParseUint ''4'' = Some 4" "exampleParseUint ''x'' = None"
    by (simp_all add: exampleParseUint_def)
  have m: "2 \<in> set (GetParents (topology ?f) (epoch ?f))"
    "3 \<in> set (GetChildren (topology ?f) (epoch ?f))"
    "4 \<notin> set (GetParents (topology ?f) (epoch ?f)) \<and> 4 \<notin> set (GetChildren (topology ?f) (epoch ?f))"
    by (simp_all add: exampleFramework_def GetParents_def GetChildren_def)
  have v: "ServeAsChild (task ?f) 2 ''shard'' = [2]" "ServeAsParent (task ?f) 3 ''shard'' = [1]"
    by (simp_all add: exampleFramework_def exampleTask_def)
  from dataReqHandler_by_role [OF d, of exampleParseUint "''2''" "''shard''"] p(1) m(1)
  have a: "dataReqHandler exampleParseUint ?f ''2'' ''shard'' =
             Inr ([CallServeAsChild 2 ''shard''], ServeAsChild (task ?f) 2 ''shard'')"
    by blast
  from dataReqHandler_by_role [OF d, of exampleParseUint "''3''" "''shard''"] p(2) m(2)
  have b: "dataReqHandler exampleParseUint ?f ''3'' ''shard'' =
             Inr ([CallServeAsParent 3 ''shard''], ServeAsParent (task ?f) 3 ''shard'')"
    by blast
  from dataReqHandler_by_role [OF d, of exampleParseUint "''4''" "''shard''"] p(3) m(3)
  have c: "dataReqHandler exampleParseUint ?f ''4'' ''shard'' = Inl (Panic ''unimplemented'')"
    by blast
  from dataReqHandler_by_role [OF d, of exampleParseUint "''x''" "''shard''"] p(4)
  have e: "dataReqHandler exampleParseUint ?f ''x'' ''shard'' =
             Inl (Fatal (''taskID in query couldn't be parsed: '' @ ''x''))"
    by blast
  from a b c e show ?thesis
    by (simp add: v)
qed

subsection \<open>Delivery of readiness events\<close>

text \<open>
  C6. On the responses a neighbour watch receives, each of whose set events carries a
  node, the loop calls the task's callback once for every response whose action is
  \<open>set\<close>, in order, with the watched identity and the node's value, and for no other
  response.
\<close>

theorem receiverLoop_set_only:
  assumes "\<forall>r\<in>set resps. Action r = ''set'' \<longrightarrow> Node r \<noteq> None"
  shows "receiverLoop cb tid resps =
           (map (\<lambda>r. taskCallback cb tid (Value (the (Node r))))
              (filter (\<lambda>r. Action r = ''set'') resps), None)"
  using assms by (induction resps) auto

theorem receiverLoop_set_only_witness:
  "receiverLoop ParentMetaReady 2
     [event ''set'' ''a'' 4, event ''delete'' [] 5, event ''update'' ''b'' 6, event ''set'' ''c'' 7] =
     ([CallParentMetaReady 2 ''a'', CallParentMetaReady 2 ''c''], None)"
proof -
  have h: "\<forall>r\<in>set [event ''set'' ''a'' 4, event ''delete'' [] 5, event ''update'' ''b'' 6,
                    event ''set'' ''c'' 7]. Action r = ''set'' \<longrightarrow> Node r \<noteq> None"
    by (simp add: event_def watchEvent_def)
  show ?thesis
    using receiverLoop_set_only [OF h, of ParentMetaReady 2] by (simp add: event_def watchEvent_def)
qed

subsection \<open>Startup, watches and shutdown\<close>

lemma watchAll_spawns:
  assumes "who \<noteq> noneRole"
  shows "\<exists>cs w'. watchAll f who tids w = Inr (cs, w') \<and> length cs = length tids \<and>
     set (goroutines w) \<subseteq> set (goroutines w') \<and>
     (\<forall>tid\<in>set tids. \<exists>path cb rcv stp. watchSwitch f who tid = Some (path, cb) \<and>
        GoWatch path 0 rcv stp \<in> set (goroutines w') \<and>
        GoReceive cb tid rcv \<in> set (goroutines w') \<and> stp \<in> set cs)"
proof (induction tids arbitrary: w)
  case Nil
  then show ?case by simp
next
  case (Cons tid tids)
  from assms obtain path cb where sw: "watchSwitch f who tid = Some (path, cb)"
    by (cases who) (simp_all add: watchSwitch_def)
  define rcv where "rcv = fst (make_chan w)"
  define stp where "stp = fst (make_chan (snd (make_chan w)))"
  define w2 where "w2 = snd (make_chan (snd (make_chan w)))"
  define w3 where "w3 = w2\<lparr>goroutines := goroutines w2 @ [GoWatch path 0 rcv stp, GoReceive cb tid rcv]\<rparr>"
  from Cons.IH [of w3] obtain cs w' where
    r: "watchAll f who tids w3 = Inr (cs, w')" and l: "length cs = length tids"
    and g: "set (goroutines w3) \<subseteq> set (goroutines w')"
    and a: "\<forall>tid\<in>set tids. \<exists>path cb rcv stp. watchSwitch f who tid = Some (path, cb) \<and>
        GoWatch path 0 rcv stp \<in> set (goroutines w') \<and>
        GoReceive cb tid rcv \<in> set (goroutines w') \<and> stp \<in> set cs"
    by blast
  have e: "watchAll f who (tid # tids) w = Inr (stp # cs, w')"
    using r sw by (simp add: case_prod_beta rcv_def stp_def w2_def w3_def)
  have gw: "goroutines w3 = goroutines w @ [GoWatch path 0 rcv stp, GoReceive cb tid rcv]"
    by (simp add: w3_def w2_def make_chan_def)
  have here: "GoWatch path 0 rcv stp \<in> set (goroutines w')" "GoReceive cb tid rcv \<in> set (goroutines w')"
    using g gw by auto
  have old: "set (goroutines w) \<subseteq> set (goroutines w')"
    using g gw by auto
  show ?case
    unfolding e using l old a here sw by fastforce
qed

lemma start_succeeds:
  obtains f1 w1 ps cs w2 w3 where
    "f1 = f\<lparr>etcdClient := Some (etcdURLs f),
              topology := SetTaskID (taskID f) (topology f), epoch := 0, stops := [],
              dataRespChan := length (chans w)\<rparr>"
    "goroutines w1 = goroutines w"
    "watchAll f1 parentRole (GetParents (SetTaskID (taskID f) (topology f)) 0) w1 = Inr (ps, w2)"
    "watchAll f1 childRole (GetChildren (SetTaskID (taskID f) (topology f)) 0) w2 = Inr (cs, w3)"
    "start f w = Inr (f1\<lparr>stops := ps @ cs\<rparr>,
        w3\<lparr>goroutines := goroutines w3 @ [GoHttpServerForDataRequest, GoDataResponseEventLoop],
           taskCalls := taskCalls w3 @ [CallSetEpoch 0, CallInit (taskID f)]\<rparr>)"
proof -
  define f1 where "f1 = f\<lparr>etcdClient := Some (etcdURLs f),
              topology := SetTaskID (taskID f) (topology f), epoch := 0, stops := [],
              dataRespChan := length (chans w)\<rparr>"
  define w1 where "w1 = w\<lparr>chans := chans w @ [Open], storeOps := storeOps w @
                 [OpCreate (MakeParentMetaPath (name f) (taskID f)) [] 0,
                  OpCreate (MakeChildMetaPath (name f) (taskID f)) [] 0]\<rparr>"
  obtain ps w2 where p: "watchAll f1 parentRole (GetParents (SetTaskID (taskID f) (topology f)) 0) w1 = Inr (ps, w2)"
    using watchAll_spawns [of parentRole f1 _ w1] by blast
  obtain cs w3 where c: "watchAll f1 childRole (GetChildren (SetTaskID (taskID f) (topology f)) 0) w2 = Inr (cs, w3)"
    using watchAll_spawns [of childRole f1 _ w2] by blast
  have g: "goroutines w1 = goroutines w"
    by (simp add: w1_def)
  have "start f w = Inr (f1\<lparr>stops := ps @ cs\<rparr>,
        w3\<lparr>goroutines := goroutines w3 @ [GoHttpServerForDataRequest, GoDataResponseEventLoop],
           taskCalls := taskCalls w3 @ [CallSetEpoch 0, CallInit (taskID f)]\<rparr>)"
    using p c by (simp add: start_def GetTaskID_def make_chan_def f1_def w1_def)
  with f1_def g p c show thesis by (rule that)
qed

lemma start_watches:
  assumes "start f w = Inr (f', w')"
  shows "name f' = name f" and "epoch f' = 0" and "topology f' = SetTaskID (taskID f) (topology f)"
    and "length (stops f') =
           length (GetParents (topology f') 0) + length (GetChildren (topology f') 0)"
    and "tid \<in> set (GetParents (topology f') 0) \<Longrightarrow>
           \<exists>rcv stp. GoWatch (MakeChildMetaPath (name f) tid) 0 rcv stp \<in> set (goroutines w') \<and>
             GoReceive ParentMetaReady tid rcv \<in> set (goroutines w') \<and> stp \<in> set (stops f')"
    and "tid \<in> set (GetChildren (topology f') 0) \<Longrightarrow>
           \<exists>rcv stp. GoWatch (MakeParentMetaPath (name f) tid) 0 rcv stp \<in> set (goroutines w') \<and>
             GoReceive ChildMetaReady tid rcv \<in> set (goroutines w') \<and> stp \<in> set (stops f')"
proof -
  let ?P = "GetParents (SetTaskID (taskID f) (topology f)) 0"
  let ?C = "GetChildren (SetTaskID (taskID f) (topology f)) 0"
  obtain f1 w1 ps cs w2 w3 where
    f1: "f1 = f\<lparr>etcdClient := Some (etcdURLs f),
              topology := SetTaskID (taskID f) (topology f), epoch := 0, stops := [],
              dataRespChan := length (chans w)\<rparr>" and
    p: "watchAll f1 parentRole ?P w1 = Inr (ps, w2)" and
    c: "watchAll f1 childRole ?C w2 = Inr (cs, w3)" and
    s: "start f w = Inr (f1\<lparr>stops := ps @ cs\<rparr>,
        w3\<lparr>goroutines := goroutines w3 @ [GoHttpServerForDataRequest, GoDataResponseEventLoop],
           taskCalls := taskCalls w3 @ [CallSetEpoch 0, CallInit (taskID f)]\<rparr>)"
    by (rule start_succeeds)
  from s assms have f': "f' = f1\<lparr>stops := ps @ cs\<rparr>"
    and w': "w' = w3\<lparr>goroutines := goroutines w3 @ [GoHttpServerForDataRequest, GoDataResponseEventLoop],
           taskCalls := taskCalls w3 @ [CallSetEpoch 0, CallInit (taskID f)]\<rparr>"
    by simp_all
  have n1: "name f1 = name f"
    by (simp add: f1)
  show "name f' = name f" and "epoch f' = 0" and t: "topology f' = SetTaskID (taskID f) (topology f)"
    by (simp_all add: f' f1)
  from watchAll_spawns [of parentRole f1 ?P w1] p
  have lp: "length ps = length ?P"
    and ap: "\<forall>tid\<in>set ?P. \<exists>path cb rcv stp. watchSwitch f1 parentRole tid = Some (path, cb) \<and>
               GoWatch path 0 rcv stp \<in> set (goroutines w2) \<and>
               GoReceive cb tid rcv \<in> set (goroutines w2) \<and> stp \<in> set ps"
    by simp_all
  from watchAll_spawns [of childRole f1 ?C w2] c
  have lc: "length cs = length ?C" and gc: "set (goroutines w2) \<subseteq> set (goroutines w3)"
    and ac: "\<forall>tid\<in>set ?C. \<exists>path cb rcv stp. watchSwitch f1 childRole tid = Some (path, cb) \<and>
               GoWatch path 0 rcv stp \<in> set (goroutines w3) \<and>
               GoReceive cb tid rcv \<in> set (goroutines w3) \<and> stp \<in> set cs"
    by simp_all
  have g3: "set (goroutines w3) \<subseteq> set (goroutines w')"
    by (auto simp: w')
  show "length (stops f') = length (GetParents (topology f') 0) + length (GetChildren (topology f') 0)"
    using lp lc by (simp add: f' f1)
  show "\<exists>rcv stp. GoWatch (MakeChildMetaPath (name f) tid) 0 rcv stp \<in> set (goroutines w') \<and>
             GoReceive ParentMetaReady tid rcv \<in> set (goroutines w') \<and> stp \<in> set (stops f')"
    if "tid \<in> set (GetParents (topology f') 0)"
  proof -
    from that have "tid \<in> set ?P" by (simp add: f' f1)
    with ap obtain rcv stp where
      "GoWatch (MakeChildMetaPath (name f) tid) 0 rcv stp \<in> set (goroutines w2)"
      "GoReceive ParentMetaReady tid rcv \<in> set (goroutines w2)" "stp \<in> set ps"
      by (fastforce simp: watchSwitch_def n1)
    with gc g3 show ?thesis by (auto simp: f')
  qed
  show "\<exists>rcv stp. GoWatch (MakeParentMetaPath (name f) tid) 0 rcv stp \<in> set (goroutines w') \<and>
             GoReceive ChildMetaReady tid rcv \<in> set (goroutines w') \<and> stp \<in> set (stops f')"
    if "tid \<in> set (GetChildren (topology f') 0)"
  proof -
    from that have "tid \<in> set ?C" by (simp add: f' f1)
    with ac obtain rcv stp where
      "GoWatch (MakeParentMetaPath (name f) tid) 0 rcv stp \<in> set (goroutines w3)"
      "GoReceive ChildMetaReady tid rcv \<in> set (goroutines w3)" "stp \<in> set cs"
      by (fastforce simp: watchSwitch_def n1)
    with g3 show ?thesis by (auto simp: f')
  qed
qed

lemmas example_defs = exampleFramework_def exampleTask_def emptyWorld_def exampleParseUint_def
  start_def SetTaskID_def GetParents_def GetChildren_def GetTaskID_def make_chan_def watchSwitch_def
  MakeParentMetaPath_def MakeChildMetaPath_def FormatUint.simps



text \<open>
  C2. The claim: \<open>Exit()\<close> closes every stop channel the framework owns. The body of
  \<open>Exit\<close> is empty. A framework of task 1 with parent 2 and child 3 owns the stop channels
  2 and 4 after \<open>start\<close>; after \<open>Exit\<close> all its channels are open as before. The method
  \<open>stop\<close>, which nothing calls, closes them; a second \<open>stop\<close> panics.
\<close>

theorem Exit_closes_nothing:
  "case start (exampleFramework (\<lambda>_. [2]) (\<lambda>_. [3])) emptyWorld of
     Inl e \<Rightarrow> False
   | Inr (f, w) \<Rightarrow>
       stops f = [2, 4] \<and> chans w = [Open, Open, Open, Open, Open] \<and>
       Exit f w = (f, w) \<and> chans (snd (Exit f w)) = [Open, Open, Open, Open, Open] \<and>
       (case stop f w of
          Inl e \<Rightarrow> False
        | Inr w' \<Rightarrow> chans w' = [Open, Open, Closed, Open, Closed] \<and>
            stop f w' = Inl (Panic ''close of closed channel''))"
  by (simp add: example_defs Exit_def stop_def close_chan_def)

text \<open>
  C8, as the code has it. \<open>start\<close> does not check the topology: on every framework it
  completes without an error, with one stop channel per entry of the parent list and of
  the child list of epoch 0. A task in both lists is not rejected; it gets a watch in
  each direction.
\<close>

theorem start_accepts_every_topology:
  "\<exists>f' w'. start f w = Inr (f', w') \<and>
     length (stops f') =
       length (GetParents (topology f') (epoch f')) + length (GetChildren (topology f') (epoch f')) \<and>
     (\<forall>tid. tid \<in> set (GetParents (topology f') (epoch f')) \<and>
            tid \<in> set (GetChildren (topology f') (epoch f')) \<longrightarrow>
        (\<exists>rcv stp. GoWatch (MakeChildMetaPath (name f) tid) 0 rcv stp \<in> set (goroutines w') \<and>
           GoReceive ParentMetaReady tid rcv \<in> set (goroutines w')) \<and>
        (\<exists>rcv stp. GoWatch (MakeParentMetaPath (name f) tid) 0 rcv stp \<in> set (goroutines w') \<and>
           GoReceive ChildMetaReady tid rcv \<in> set (goroutines w')))"
proof -
  obtain f' w' where s: "start f w = Inr (f', w')"
    by (rule start_succeeds [where f = f and w = w]) blast
  have e: "epoch f' = 0"
    by (rule start_watches(2) [OF s])
  have "length (stops f') =
       length (GetParents (topology f') (epoch f')) + length (GetChildren (topology f') (epoch f'))"
    using start_watches(4) [OF s] by (simp add: e)
  moreover have "\<exists>rcv stp. GoWatch (MakeChildMetaPath (name f) tid) 0 rcv stp \<in> set (goroutines w') \<and>
           GoReceive ParentMetaReady tid rcv \<in> set (goroutines w')"
    if "tid \<in> set (GetParents (topology f') (epoch f'))" for tid
    using start_watches(5) [OF s, of tid] that by (auto simp: e)
  moreover have "\<exists>rcv stp. GoWatch (MakeParentMetaPath (name f) tid) 0 rcv stp \<in> set (goroutines w') \<and>
           GoReceive ChildMetaReady tid rcv \<in> set (goroutines w')"
    if "tid \<in> set (GetChildren (topology f') (epoch f'))" for tid
    using start_watches(6) [OF s, of tid] that by (auto simp: e)
  ultimately show ?thesis
    using s by blast
qed

lemma start_overlap_example:
  "start (exampleFramework (\<lambda>_. [2]) (\<lambda>_. [2])) emptyWorld =
     Inr ((exampleFramework (\<lambda>_. [2]) (\<lambda>_. [2]))
            \<lparr>etcdClient := Some [''http://localhost:4001''],
             topology := \<lparr>observer = 1, parentsOf = (\<lambda>_ _. [2]), childrenOf = (\<lambda>_ _. [2])\<rparr>,
             stops := [2, 4], dataRespChan := 0\<rparr>,
          \<lparr>chans = [Open, Open, Open, Open, Open],
           goroutines = [GoWatch ''/childMeta/job/2'' 0 1 2, GoReceive ParentMetaReady 2 1,
                         GoWatch ''/parentMeta/job/2'' 0 3 4, GoReceive ChildMetaReady 2 3,
                         GoHttpServerForDataRequest, GoDataResponseEventLoop],
           storeOps = [OpCreate ''/parentMeta/job/1'' [] 0, OpCreate ''/childMeta/job/1'' [] 0],
           taskCalls = [CallSetEpoch 0, CallInit 1]\<rparr>)"
  by (simp add: example_defs)

theorem start_accepts_every_topology_witness:
  "\<exists>f' w'. start (exampleFramework (\<lambda>_. [2]) (\<lambda>_. [2])) emptyWorld = Inr (f', w') \<and>
     length (stops f') = 2 \<and>
     (\<exists>rcv stp. GoWatch ''/childMeta/job/2'' 0 rcv stp \<in> set (goroutines w') \<and>
        GoReceive ParentMetaReady 2 rcv \<in> set (goroutines w')) \<and>
     (\<exists>rcv stp. GoWatch ''/parentMeta/job/2'' 0 rcv stp \<in> set (goroutines w') \<and>
        GoReceive ChildMetaReady 2 rcv \<in> set (goroutines w'))"
proof -
  from start_accepts_every_topology [of "exampleFramework (\<lambda>_. [2]) (\<lambda>_. [2])" emptyWorld]
  obtain f' w' where s: "start (exampleFramework (\<lambda>_. [2]) (\<lambda>_. [2])) emptyWorld = Inr (f', w')"
    and l: "length (stops f') =
       length (GetParents (topology f') (epoch f')) + length (GetChildren (topology f') (epoch f'))"
    and b: "\<forall>tid. tid \<in> set (GetParents (topology f') (epoch f')) \<and>
            tid \<in> set (GetChildren (topology f') (epoch f')) \<longrightarrow>
        (\<exists>rcv stp. GoWatch (MakeChildMetaPath (name (exampleFramework (\<lambda>_. [2]) (\<lambda>_. [2]))) tid) 0 rcv stp
             \<in> set (goroutines w') \<and>
           GoReceive ParentMetaReady tid rcv \<in> set (goroutines w')) \<and>
        (\<exists>rcv stp. GoWatch (MakeParentMetaPath (name (exampleFramework (\<lambda>_. [2]) (\<lambda>_. [2]))) tid) 0 rcv stp
             \<in> set (goroutines w') \<and>
           GoReceive ChildMetaReady tid rcv \<in> set (goroutines w'))"
    by blast
  from s have f': "f' = (exampleFramework (\<lambda>_. [2]) (\<lambda>_. [2]))
            \<lparr>etcdClient := Some [''http://localhost:4001''],
             topology := \<lparr>observer = 1, parentsOf = (\<lambda>_ _. [2]), childrenOf = (\<lambda>_ _. [2])\<rparr>,
             stops := [2, 4], dataRespChan := 0\<rparr>"
    by (simp add: start_overlap_example)
  have in2: "2 \<in> set (GetParents (topology f') (epoch f')) \<and>
             2 \<in> set (GetChildren (topology f') (epoch f'))"
    by (simp add: f' GetParents_def GetChildren_def exampleFramework_def)
  have paths: "MakeChildMetaPath (name (exampleFramework (\<lambda>_. [2]) (\<lambda>_. [2]))) 2 = ''/childMeta/job/2''"
    "MakeParentMetaPath (name (exampleFramework (\<lambda>_. [2]) (\<lambda>_. [2]))) 2 = ''/parentMeta/job/2''"
    by (simp_all add: example_defs)
  have len: "length (stops f') = 2"
    by (simp add: f')
  from b in2 paths have
    "(\<exists>rcv stp. GoWatch ''/childMeta/job/2'' 0 rcv stp \<in> set (goroutines w') \<and>
        GoReceive ParentMetaReady 2 rcv \<in> set (goroutines w')) \<and>
     (\<exists>rcv stp. GoWatch ''/parentMeta/job/2'' 0 rcv stp \<in> set (goroutines w') \<and>
        GoReceive ChildMetaReady 2 rcv \<in> set (goroutines w'))"
    by metis
  with s len show ?thesis by blast
qed

text \<open>
  C8 as stated fails: task 2 is both a parent and a child of task 1 at epoch 0, and
  \<open>start\<close> returns a started framework with two stop channels instead of an error.
\<close>

theorem start_overlap_counterexample:
  "2 \<in> set (GetParents (SetTaskID 1 (topology (exampleFramework (\<lambda>_. [2]) (\<lambda>_. [2])))) 0) \<and>
   2 \<in> set (GetChildren (SetTaskID 1 (topology (exampleFramework (\<lambda>_. [2]) (\<lambda>_. [2])))) 0) \<and>
   (case start (exampleFramework (\<lambda>_. [2]) (\<lambda>_. [2])) emptyWorld of
      Inl e \<Rightarrow> False
    | Inr (f', w') \<Rightarrow> stops f' = [2, 4] \<and> taskCalls w' = [CallSetEpoch 0, CallInit 1])"
  by (simp add: example_defs)

subsection \<open>Readiness round trip\<close>

lemma digitValue_digit: "k < 10 \<Longrightarrow> digitValue (''0123456789'' ! k) = k"
proof -
  assume "k < 10"
  then have "k \<in> {0, 1, 2, 3, 4, 5, 6, 7, 8, 9}"
    by auto
  then show ?thesis
    by (auto simp: digitValue_def)
qed

lemma decimalValue_FormatUint: "decimalValue (FormatUint n) = n"
proof (induction n rule: FormatUint.induct)
  case (1 n)
  show ?case
  proof (cases "n < 10")
    case True
    then show ?thesis
      by (subst FormatUint.simps) (simp add: decimalValue_def digitValue_digit)
  next
    case False
    with "1" have ih: "decimalValue (FormatUint (n div 10)) = n div 10"
      by simp
    have "decimalValue (FormatUint n) =
            10 * decimalValue (FormatUint (n div 10)) + digitValue (''0123456789'' ! (n mod 10))"
      using False by (subst FormatUint.simps) (simp add: decimalValue_def)
    then show ?thesis
      by (simp add: ih digitValue_digit)
  qed
qed

lemma FormatUint_inj: "FormatUint m = FormatUint n \<longleftrightarrow> m = n"
  by (metis decimalValue_FormatUint)

lemma MakeChildMetaPath_inj: "MakeChildMetaPath nm a = MakeChildMetaPath nm b \<longleftrightarrow> a = b"
  by (simp add: MakeChildMetaPath_def FormatUint_inj word_unat_eq_iff)

lemma MakeParentMetaPath_inj: "MakeParentMetaPath nm a = MakeParentMetaPath nm b \<longleftrightarrow> a = b"
  by (simp add: MakeParentMetaPath_def FormatUint_inj word_unat_eq_iff)

lemma child_parent_paths_differ: "MakeChildMetaPath nm a \<noteq> MakeParentMetaPath nm' b"
  by (simp add: MakeChildMetaPath_def MakeParentMetaPath_def)

lemma watchAll_closed_form:
  assumes "\<And>tid. watchSwitch f who tid = Some (pf tid, cb)"
  shows "watchAll f who tids w =
           Inr (stopsFrom (length (chans w)) tids,
                w\<lparr>chans := chans w @ replicate (2 * length tids) Open,
                  goroutines := goroutines w @ spawned (length (chans w)) pf cb tids\<rparr>)"
proof (induction tids arbitrary: w)
  case Nil
  then show ?case by simp
next
  case (Cons tid tids)
  show ?case
    by (simp add: make_chan_def assms Cons.IH replicate_append_same)
qed


lemma liveWatchReceivers_append:
  "liveWatchReceivers cs path (xs @ ys) =
     liveWatchReceivers cs path xs @ liveWatchReceivers cs path ys"
  by (induction cs path xs rule: liveWatchReceivers.induct) simp_all

lemma readersOf_append: "readersOf c (xs @ ys) = readersOf c xs @ readersOf c ys"
  by (induction c xs rule: readersOf.induct) simp_all

lemma liveWatchReceivers_other_path:
  "(\<And>t. pf t \<noteq> path) \<Longrightarrow> liveWatchReceivers cs path (spawned n pf cb ts) = []"
  by (induction ts arbitrary: n) simp_all

lemma liveWatchReceivers_spawned:
  assumes "\<And>s t. pf s = pf t \<longleftrightarrow> s = t"
    and "\<And>k. n \<le> k \<Longrightarrow> k < n + 2 * length ts \<Longrightarrow> k < length cs \<and> cs ! k = Open"
  shows "liveWatchReceivers cs (pf a) (spawned n pf cb ts) = receiversFor n a ts"
  using assms(2)
proof (induction ts arbitrary: n)
  case Nil
  then show ?case by simp
next
  case (Cons t ts)
  have live: "Suc n < length cs \<and> cs ! Suc n = Open"
    using Cons.prems [of "Suc n"] by simp
  have rest: "liveWatchReceivers cs (pf a) (spawned (Suc (Suc n)) pf cb ts) =
                receiversFor (Suc (Suc n)) a ts"
    by (rule Cons.IH) (use Cons.prems in simp)
  show ?case
    using live rest by (simp add: assms(1) stopped_def)
qed

lemma readersOf_spawned_below: "c < n \<Longrightarrow> readersOf c (spawned n pf cb ts) = []"
  by (induction ts arbitrary: n) simp_all

lemma readersOf_spawned_above:
  "n + 2 * length ts \<le> c \<Longrightarrow> readersOf c (spawned n pf cb ts) = []"
  by (induction ts arbitrary: n) simp_all

lemma receiversFor_range:
  "c \<in> set (receiversFor n a ts) \<Longrightarrow> n \<le> c \<and> c < n + 2 * length ts"
  by (induction ts arbitrary: n) (fastforce split: if_splits)+

lemma readersOf_receiversFor:
  "c \<in> set (receiversFor n a ts) \<Longrightarrow> readersOf c (spawned n pf cb ts) = [(cb, a)]"
proof (induction ts arbitrary: n)
  case Nil
  then show ?case by simp
next
  case (Cons t ts)
  show ?case
  proof (cases "c = n")
    case True
    have "c \<notin> set (receiversFor (Suc (Suc n)) a ts)"
      using receiversFor_range [of c "Suc (Suc n)" a ts] True by auto
    with Cons.prems True have "t = a"
      by (simp split: if_splits)
    then show ?thesis
      using True by (simp add: readersOf_spawned_below)
  next
    case False
    with Cons.prems have "c \<in> set (receiversFor (Suc (Suc n)) a ts)"
      by (simp split: if_splits)
    then have "readersOf c (spawned (Suc (Suc n)) pf cb ts) = [(cb, a)]"
      by (rule Cons.IH)
    then show ?thesis
      using False by simp
  qed
qed

lemma length_receiversFor: "length (receiversFor n a ts) = count_list ts a"
  by (induction ts arbitrary: n) simp_all

lemma start_closed_form:
  assumes "start f w = Inr (f', w')"
  shows "f' = f\<lparr>etcdClient := Some (etcdURLs f),
               topology := SetTaskID (taskID f) (topology f), epoch := 0,
               stops := stopsFrom (Suc (length (chans w))) (GetParents (SetTaskID (taskID f) (topology f)) 0) @
                        stopsFrom (Suc (length (chans w)) + 2 * length (GetParents (SetTaskID (taskID f) (topology f)) 0))
                          (GetChildren (SetTaskID (taskID f) (topology f)) 0),
               dataRespChan := length (chans w)\<rparr>"
    and "chans w' = chans w @ replicate (Suc (2 * length (GetParents (SetTaskID (taskID f) (topology f)) 0)
                      + 2 * length (GetChildren (SetTaskID (taskID f) (topology f)) 0))) Open"
    and "goroutines w' = goroutines w @
           spawned (Suc (length (chans w))) (MakeChildMetaPath (name f)) ParentMetaReady
             (GetParents (SetTaskID (taskID f) (topology f)) 0) @
           spawned (Suc (length (chans w)) + 2 * length (GetParents (SetTaskID (taskID f) (topology f)) 0))
             (MakeParentMetaPath (name f)) ChildMetaReady
             (GetChildren (SetTaskID (taskID f) (topology f)) 0) @
           [GoHttpServerForDataRequest, GoDataResponseEventLoop]"
proof -
  let ?f1 = "f\<lparr>etcdClient := Some (etcdURLs f),
               topology := SetTaskID (taskID f) (topology f), epoch := 0, stops := [],
               dataRespChan := length (chans w)\<rparr>"
  have p: "\<And>tid. watchSwitch ?f1 parentRole tid = Some (MakeChildMetaPath (name f) tid, ParentMetaReady)"
    and c: "\<And>tid. watchSwitch ?f1 childRole tid = Some (MakeParentMetaPath (name f) tid, ChildMetaReady)"
    by (simp_all add: watchSwitch_def)
  note cf = watchAll_closed_form [of ?f1 parentRole, OF p] watchAll_closed_form [of ?f1 childRole, OF c]
  from assms show "f' = f\<lparr>etcdClient := Some (etcdURLs f),
               topology := SetTaskID (taskID f) (topology f), epoch := 0,
               stops := stopsFrom (Suc (length (chans w))) (GetParents (SetTaskID (taskID f) (topology f)) 0) @
                        stopsFrom (Suc (length (chans w)) + 2 * length (GetParents (SetTaskID (taskID f) (topology f)) 0))
                          (GetChildren (SetTaskID (taskID f) (topology f)) 0),
               dataRespChan := length (chans w)\<rparr>"
    by (auto simp: start_def make_chan_def cf GetTaskID_def)
  from assms show "chans w' = chans w @ replicate (Suc (2 * length (GetParents (SetTaskID (taskID f) (topology f)) 0)
                      + 2 * length (GetChildren (SetTaskID (taskID f) (topology f)) 0))) Open"
    by (auto simp: start_def make_chan_def cf GetTaskID_def replicate_add)
  from assms show "goroutines w' = goroutines w @
           spawned (Suc (length (chans w))) (MakeChildMetaPath (name f)) ParentMetaReady
             (GetParents (SetTaskID (taskID f) (topology f)) 0) @
           spawned (Suc (length (chans w)) + 2 * length (GetParents (SetTaskID (taskID f) (topology f)) 0))
             (MakeParentMetaPath (name f)) ChildMetaReady
             (GetChildren (SetTaskID (taskID f) (topology f)) 0) @
           [GoHttpServerForDataRequest, GoDataResponseEventLoop]"
    by (auto simp: start_def make_chan_def cf GetTaskID_def)
qed


lemma receive_unique_reader:
  "readersOf c (goroutines w) = [(cb, tid)] \<Longrightarrow> receive w c resps = Some (receiverLoop cb tid resps)"
  by (simp add: receive_def)

lemma deliver_after_start:
  assumes "start f w = Inr (f', w')" and "goroutines w = []"
  shows "deliver w' (MakeChildMetaPath (name f) a) resps =
           replicate (count_list (GetParents (topology f') 0) a)
             (Some (receiverLoop ParentMetaReady a resps))"
    and "deliver w' (MakeParentMetaPath (name f) a) resps =
           replicate (count_list (GetChildren (topology f') 0) a)
             (Some (receiverLoop ChildMetaReady a resps))"
proof -
  define P where "P = GetParents (SetTaskID (taskID f) (topology f)) 0"
  define C where "C = GetChildren (SetTaskID (taskID f) (topology f)) 0"
  define n where "n = Suc (length (chans w))"
  define GP where "GP = spawned n (MakeChildMetaPath (name f)) ParentMetaReady P"
  define GC where "GC = spawned (n + 2 * length P) (MakeParentMetaPath (name f)) ChildMetaReady C"
  note cf = start_closed_form [OF assms(1)]
  have top: "GetParents (topology f') 0 = P" "GetChildren (topology f') 0 = C"
    by (simp_all add: cf(1) P_def C_def)
  have cs: "chans w' = chans w @ replicate (Suc (2 * length P + 2 * length C)) Open"
    by (simp add: cf(2) P_def C_def)
  have gs: "goroutines w' = GP @ GC @ [GoHttpServerForDataRequest, GoDataResponseEventLoop]"
    by (simp add: cf(3) assms(2) GP_def GC_def P_def C_def n_def)
  have live: "k < length (chans w') \<and> chans w' ! k = Open"
    if "n \<le> k" and "k < n + 2 * length P + 2 * length C" for k
    using that by (simp add: cs n_def nth_append)
  have liveP: "\<And>k. n \<le> k \<Longrightarrow> k < n + 2 * length P \<Longrightarrow> k < length (chans w') \<and> chans w' ! k = Open"
    using live by simp
  have liveC: "\<And>k. n + 2 * length P \<le> k \<Longrightarrow> k < n + 2 * length P + 2 * length C \<Longrightarrow>
                 k < length (chans w') \<and> chans w' ! k = Open"
    using live by simp
  have lwP: "liveWatchReceivers (chans w') (MakeChildMetaPath (name f) a) (goroutines w') =
               receiversFor n a P"
    unfolding gs liveWatchReceivers_append GP_def GC_def
    by (simp add: liveWatchReceivers_spawned [OF MakeChildMetaPath_inj liveP]
        liveWatchReceivers_other_path child_parent_paths_differ [symmetric])
  have lwC: "liveWatchReceivers (chans w') (MakeParentMetaPath (name f) a) (goroutines w') =
               receiversFor (n + 2 * length P) a C"
    unfolding gs liveWatchReceivers_append GP_def GC_def
    by (simp add: liveWatchReceivers_spawned [OF MakeParentMetaPath_inj liveC]
        liveWatchReceivers_other_path child_parent_paths_differ)
  have rdP: "receive w' c resps = Some (receiverLoop ParentMetaReady a resps)"
    if "c \<in> set (receiversFor n a P)" for c
  proof -
    have "readersOf c GP = [(ParentMetaReady, a)]"
      unfolding GP_def by (rule readersOf_receiversFor [OF that])
    moreover have "readersOf c GC = []"
      unfolding GC_def using receiversFor_range [OF that] by (simp add: readersOf_spawned_below)
    ultimately have "readersOf c (goroutines w') = [(ParentMetaReady, a)]"
      by (simp add: gs readersOf_append)
    then show ?thesis by (rule receive_unique_reader)
  qed
  have rdC: "receive w' c resps = Some (receiverLoop ChildMetaReady a resps)"
    if "c \<in> set (receiversFor (n + 2 * length P) a C)" for c
  proof -
    have "readersOf c GC = [(ChildMetaReady, a)]"
      unfolding GC_def by (rule readersOf_receiversFor [OF that])
    moreover have "readersOf c GP = []"
      unfolding GP_def using receiversFor_range [OF that] by (simp add: readersOf_spawned_above)
    ultimately have "readersOf c (goroutines w') = [(ChildMetaReady, a)]"
      by (simp add: gs readersOf_append)
    then show ?thesis by (rule receive_unique_reader)
  qed
  have "deliver w' (MakeChildMetaPath (name f) a) resps =
          map (\<lambda>c. Some (receiverLoop ParentMetaReady a resps)) (receiversFor n a P)"
    unfolding deliver_def lwP by (rule map_cong [OF refl]) (rule rdP)
  then show "deliver w' (MakeChildMetaPath (name f) a) resps =
           replicate (count_list (GetParents (topology f') 0) a)
             (Some (receiverLoop ParentMetaReady a resps))"
    by (simp add: map_replicate_const length_receiversFor top)
  have "deliver w' (MakeParentMetaPath (name f) a) resps =
          map (\<lambda>c. Some (receiverLoop ChildMetaReady a resps)) (receiversFor (n + 2 * length P) a C)"
    unfolding deliver_def lwC by (rule map_cong [OF refl]) (rule rdC)
  then show "deliver w' (MakeParentMetaPath (name f) a) resps =
           replicate (count_list (GetChildren (topology f') 0) a)
             (Some (receiverLoop ChildMetaReady a resps))"
    by (simp add: map_replicate_const length_receiversFor top)
qed

lemma start_client:
  assumes "start f w = Inr (f', w')"
  shows "etcdClient f' = Some (etcdURLs f)" and "taskID f' = taskID f"
  by (simp_all add: start_closed_form(1) [OF assms])

text \<open>
  C5, as the code has it. Let task B have started in a fresh process and let task A, of
  the same job, have started. \<open>FlagChildMetaReady(p)\<close> of A sends one write to the store,
  a set of \<open>p\<close> on A's child-meta path. The store's report of that write, passed through
  the watches and receiver loops of B, makes B's task see \<open>ParentMetaReady(A, p)\<close> once
  for every occurrence of A in B's parent list of epoch 0, the epoch at which \<open>start\<close> reads
  the topology, and nothing else: at least once when A is in that list and not at all
  when it is not. In the same way \<open>FlagParentMetaReady(p)\<close> writes A's parent-meta path
  and B sees \<open>ChildMetaReady(A, p)\<close> once for every occurrence of A in its child list of
  epoch 0. The watches belong to the process, so a later \<open>SetEpoch\<close> leaves them as they
  are.
\<close>

theorem readiness_round_trip:
  assumes "start fB wB = Inr (fB', wB')" and "goroutines wB = []"
    and "start fA0 wA0 = Inr (fA, wAs)" and "name fA = name fB"
  shows "(\<exists>wA' op. FlagChildMetaReady fA p wA = Inr wA' \<and> storeOps wA' = storeOps wA @ [op] \<and>
            fst (notification op i h) = MakeChildMetaPath (name fA) (taskID fA) \<and>
            deliver wB' (fst (notification op i h)) [snd (notification op i h)] =
              replicate (count_list (GetParents (topology fB') 0) (taskID fA))
                (Some ([CallParentMetaReady (taskID fA) p], None)) \<and>
            (taskID fA \<in> set (GetParents (topology (SetEpoch e fB')) 0) \<longleftrightarrow>
               Some ([CallParentMetaReady (taskID fA) p], None) \<in>
                 set (deliver wB' (fst (notification op i h)) [snd (notification op i h)]))) \<and>
         (\<exists>wA' op. FlagParentMetaReady fA p wA = Inr wA' \<and> storeOps wA' = storeOps wA @ [op] \<and>
            fst (notification op i h) = MakeParentMetaPath (name fA) (taskID fA) \<and>
            deliver wB' (fst (notification op i h)) [snd (notification op i h)] =
              replicate (count_list (GetChildren (topology fB') 0) (taskID fA))
                (Some ([CallChildMetaReady (taskID fA) p], None)) \<and>
            (taskID fA \<in> set (GetChildren (topology (SetEpoch e fB')) 0) \<longleftrightarrow>
               Some ([CallChildMetaReady (taskID fA) p], None) \<in>
                 set (deliver wB' (fst (notification op i h)) [snd (notification op i h)])))"
proof -
  obtain client where cl: "etcdClient fA = Some client"
    using start_client(1) [OF assms(3)] by blast
  let ?cop = "OpSet (MakeChildMetaPath (name fA) (taskID fA)) p 0"
  let ?pop = "OpSet (MakeParentMetaPath (name fA) (taskID fA)) p 0"
  have fc: "FlagChildMetaReady fA p wA = Inr (wA\<lparr>storeOps := storeOps wA @ [?cop]\<rparr>)"
    by (simp add: FlagChildMetaReady_def cl GetTaskID_def)
  have fp: "FlagParentMetaReady fA p wA = Inr (wA\<lparr>storeOps := storeOps wA @ [?pop]\<rparr>)"
    by (simp add: FlagParentMetaReady_def cl GetTaskID_def)
  have dc: "deliver wB' (fst (notification ?cop i h)) [snd (notification ?cop i h)] =
              replicate (count_list (GetParents (topology fB') 0) (taskID fA))
                (Some ([CallParentMetaReady (taskID fA) p], None))"
    using deliver_after_start(1) [OF assms(1,2), of "taskID fA"
        "[snd (notification ?cop i h)]"]
    by (simp add: assms(4))
  have dp: "deliver wB' (fst (notification ?pop i h)) [snd (notification ?pop i h)] =
              replicate (count_list (GetChildren (topology fB') 0) (taskID fA))
                (Some ([CallChildMetaReady (taskID fA) p], None))"
    using deliver_after_start(2) [OF assms(1,2), of "taskID fA"
        "[snd (notification ?pop i h)]"]
    by (simp add: assms(4))
  have mc: "taskID fA \<in> set (GetParents (topology (SetEpoch e fB')) 0) \<longleftrightarrow>
              Some ([CallParentMetaReady (taskID fA) p], None) \<in>
                set (deliver wB' (fst (notification ?cop i h)) [snd (notification ?cop i h)])"
    unfolding dc by (simp add: SetEpoch_def count_list_0_iff)
  have mp: "taskID fA \<in> set (GetChildren (topology (SetEpoch e fB')) 0) \<longleftrightarrow>
              Some ([CallChildMetaReady (taskID fA) p], None) \<in>
                set (deliver wB' (fst (notification ?pop i h)) [snd (notification ?pop i h)])"
    unfolding dp by (simp add: SetEpoch_def count_list_0_iff)
  have "\<exists>wA' op. FlagChildMetaReady fA p wA = Inr wA' \<and> storeOps wA' = storeOps wA @ [op] \<and>
            fst (notification op i h) = MakeChildMetaPath (name fA) (taskID fA) \<and>
            deliver wB' (fst (notification op i h)) [snd (notification op i h)] =
              replicate (count_list (GetParents (topology fB') 0) (taskID fA))
                (Some ([CallParentMetaReady (taskID fA) p], None)) \<and>
            (taskID fA \<in> set (GetParents (topology (SetEpoch e fB')) 0) \<longleftrightarrow>
               Some ([CallParentMetaReady (taskID fA) p], None) \<in>
                 set (deliver wB' (fst (notification op i h)) [snd (notification op i h)]))"
    using fc dc mc by (intro exI [of _ "wA\<lparr>storeOps := storeOps wA @ [?cop]\<rparr>"] exI [of _ ?cop]) simp
  moreover have "\<exists>wA' op. FlagParentMetaReady fA p wA = Inr wA' \<and> storeOps wA' = storeOps wA @ [op] \<and>
            fst (notification op i h) = MakeParentMetaPath (name fA) (taskID fA) \<and>
            deliver wB' (fst (notification op i h)) [snd (notification op i h)] =
              replicate (count_list (GetChildren (topology fB') 0) (taskID fA))
                (Some ([CallChildMetaReady (taskID fA) p], None)) \<and>
            (taskID fA \<in> set (GetChildren (topology (SetEpoch e fB')) 0) \<longleftrightarrow>
               Some ([CallChildMetaReady (taskID fA) p], None) \<in>
                 set (deliver wB' (fst (notification op i h)) [snd (notification op i h)]))"
    using fp dp mp by (intro exI [of _ "wA\<lparr>storeOps := storeOps wA @ [?pop]\<rparr>"] exI [of _ ?pop]) simp
  ultimately show ?thesis
    by (rule conjI)
qed

lemma start_example:
  "start (exampleFramework (\<lambda>_. [2]) (\<lambda>_. [3])) emptyWorld =
     Inr ((exampleFramework (\<lambda>_. [2]) (\<lambda>_. [3]))
            \<lparr>etcdClient := Some [''http://localhost:4001''],
             topology := \<lparr>observer = 1, parentsOf = (\<lambda>_ _. [2]), childrenOf = (\<lambda>_ _. [3])\<rparr>,
             stops := [2, 4], dataRespChan := 0\<rparr>,
          \<lparr>chans = [Open, Open, Open, Open, Open],
           goroutines = [GoWatch ''/childMeta/job/2'' 0 1 2, GoReceive ParentMetaReady 2 1,
                         GoWatch ''/parentMeta/job/3'' 0 3 4, GoReceive ChildMetaReady 3 3,
                         GoHttpServerForDataRequest, GoDataResponseEventLoop],
           storeOps = [OpCreate ''/parentMeta/job/1'' [] 0, OpCreate ''/childMeta/job/1'' [] 0],
           taskCalls = [CallSetEpoch 0, CallInit 1]\<rparr>)"
  by (simp add: example_defs)

lemma start_example_neighbour:
  "start ((exampleFramework (\<lambda>_. []) (\<lambda>_. []))\<lparr>taskID := a\<rparr>) emptyWorld =
     Inr ((exampleFramework (\<lambda>_. []) (\<lambda>_. []))
            \<lparr>taskID := a, etcdClient := Some [''http://localhost:4001''],
             topology := \<lparr>observer = a, parentsOf = (\<lambda>_ _. []), childrenOf = (\<lambda>_ _. [])\<rparr>,
             dataRespChan := 0\<rparr>,
          \<lparr>chans = [Open],
           goroutines = [GoHttpServerForDataRequest, GoDataResponseEventLoop],
           storeOps = [OpCreate (MakeParentMetaPath ''job'' a) [] 0,
                       OpCreate (MakeChildMetaPath ''job'' a) [] 0],
           taskCalls = [CallSetEpoch 0, CallInit a]\<rparr>)"
  by (simp add: exampleFramework_def exampleTask_def emptyWorld_def start_def SetTaskID_def
      GetParents_def GetChildren_def GetTaskID_def make_chan_def)

theorem readiness_round_trip_witness:
  "case start (exampleFramework (\<lambda>_. [2]) (\<lambda>_. [3])) emptyWorld of
     Inl err \<Rightarrow> False
   | Inr (fB', wB') \<Rightarrow>
       (case start ((exampleFramework (\<lambda>_. []) (\<lambda>_. []))\<lparr>taskID := 2\<rparr>) emptyWorld of
          Inl err \<Rightarrow> False
        | Inr (fA, wA) \<Rightarrow>
            (case FlagChildMetaReady fA ''ready'' wA of
               Inl err \<Rightarrow> False
             | Inr wA' \<Rightarrow>
                 storeOps wA' = storeOps wA @ [OpSet ''/childMeta/job/2'' ''ready'' 0] \<and>
                 deliver wB' ''/childMeta/job/2''
                   [snd (notification (OpSet ''/childMeta/job/2'' ''ready'' 0) 9 8)] =
                   [Some ([CallParentMetaReady 2 ''ready''], None)])) \<and>
       (case start ((exampleFramework (\<lambda>_. []) (\<lambda>_. []))\<lparr>taskID := 3\<rparr>) emptyWorld of
          Inl err \<Rightarrow> False
        | Inr (fA, wA) \<Rightarrow>
            (case FlagParentMetaReady fA ''ready'' wA of
               Inl err \<Rightarrow> False
             | Inr wA' \<Rightarrow>
                 storeOps wA' = storeOps wA @ [OpSet ''/parentMeta/job/3'' ''ready'' 0] \<and>
                 deliver wB' ''/parentMeta/job/3''
                   [snd (notification (OpSet ''/parentMeta/job/3'' ''ready'' 0) 9 8)] =
                   [Some ([CallChildMetaReady 3 ''ready''], None)] \<and>
                 deliver wB' ''/childMeta/job/3''
                   [snd (notification (OpSet ''/childMeta/job/3'' ''ready'' 0) 9 8)] = []))"
proof -
  let ?B = "exampleFramework (\<lambda>_. [2]) (\<lambda>_. [3])"
  let ?FB = "?B\<lparr>etcdClient := Some [''http://localhost:4001''],
               topology := \<lparr>observer = 1, parentsOf = (\<lambda>_ _. [2]), childrenOf = (\<lambda>_ _. [3])\<rparr>,
               stops := [2, 4], dataRespChan := 0\<rparr>"
  let ?WB = "\<lparr>chans = [Open, Open, Open, Open, Open],
           goroutines = [GoWatch ''/childMeta/job/2'' 0 1 2, GoReceive ParentMetaReady 2 1,
                         GoWatch ''/parentMeta/job/3'' 0 3 4, GoReceive ChildMetaReady 3 3,
                         GoHttpServerForDataRequest, GoDataResponseEventLoop],
           storeOps = [OpCreate ''/parentMeta/job/1'' [] 0, OpCreate ''/childMeta/job/1'' [] 0],
           taskCalls = [CallSetEpoch 0, CallInit 1]\<rparr>"
  let ?FA = "\<lambda>a. (exampleFramework (\<lambda>_. []) (\<lambda>_. []))
            \<lparr>taskID := a, etcdClient := Some [''http://localhost:4001''],
             topology := \<lparr>observer = a, parentsOf = (\<lambda>_ _. []), childrenOf = (\<lambda>_ _. [])\<rparr>,
             dataRespChan := 0\<rparr>"
  let ?WA = "\<lambda>a. \<lparr>chans = [Open],
           goroutines = [GoHttpServerForDataRequest, GoDataResponseEventLoop],
           storeOps = [OpCreate (MakeParentMetaPath ''job'' a) [] 0,
                       OpCreate (MakeChildMetaPath ''job'' a) [] 0],
           taskCalls = [CallSetEpoch 0, CallInit a]\<rparr>"
  have fresh: "goroutines emptyWorld = []"
    by (simp add: emptyWorld_def)
  have names: "name (?FA 2) = name ?B" "name (?FA 3) = name ?B"
    by (simp_all add: exampleFramework_def)
  have vals: "taskID (?FA 2) = 2" "taskID (?FA 3) = 3" "name (?FA 2) = ''job''" "name (?FA 3) = ''job''"
    "GetParents (topology ?FB) 0 = [2]" "GetChildren (topology ?FB) 0 = [3]"
    by (simp_all add: exampleFramework_def GetParents_def GetChildren_def)
  have paths: "MakeChildMetaPath ''job'' 2 = ''/childMeta/job/2''"
    "MakeParentMetaPath ''job'' 3 = ''/parentMeta/job/3''"
    by (simp_all add: MakeChildMetaPath_def MakeParentMetaPath_def FormatUint.simps)
  from readiness_round_trip [OF start_example fresh start_example_neighbour names(1),
      of "''ready''" "?WA 2" 9 8 0]
  obtain wA2 op2 where
    f2: "FlagChildMetaReady (?FA 2) ''ready'' (?WA 2) = Inr wA2" and
    s2: "storeOps wA2 = storeOps (?WA 2) @ [op2]" and
    p2: "fst (notification op2 9 8) = ''/childMeta/job/2''" and
    d2: "deliver ?WB (fst (notification op2 9 8)) [snd (notification op2 9 8)] =
           [Some ([CallParentMetaReady 2 ''ready''], None)]"
    unfolding vals paths by auto
  from readiness_round_trip [OF start_example fresh start_example_neighbour names(2),
      of "''ready''" "?WA 3" 9 8 0]
  obtain wA3 op3 where
    f3: "FlagParentMetaReady (?FA 3) ''ready'' (?WA 3) = Inr wA3" and
    s3: "storeOps wA3 = storeOps (?WA 3) @ [op3]" and
    p3: "fst (notification op3 9 8) = ''/parentMeta/job/3''" and
    d3: "deliver ?WB (fst (notification op3 9 8)) [snd (notification op3 9 8)] =
           [Some ([CallChildMetaReady 3 ''ready''], None)]"
    unfolding vals paths by auto
  have o2: "op2 = OpSet ''/childMeta/job/2'' ''ready'' 0"
    using f2 s2 by (auto simp: FlagChildMetaReady_def GetTaskID_def vals paths)
  have o3: "op3 = OpSet ''/parentMeta/job/3'' ''ready'' 0"
    using f3 s3 by (auto simp: FlagParentMetaReady_def GetTaskID_def vals paths)
  have none: "deliver ?WB ''/childMeta/job/3''
                [snd (notification (OpSet ''/childMeta/job/3'' ''ready'' 0) 9 8)] = []"
    by (simp add: deliver_def)
  show ?thesis
    using f2 s2 d2 f3 s3 d3 none
    by (simp add: start_example start_example_neighbour o2 o3)
qed

text \<open>
  C5 as stated, with the parent set of the current epoch, fails once the epoch has moved.
  Task 1 has no parent at epoch 0 and parent 7 at epoch 1. After \<open>start\<close> and
  \<open>SetEpoch(1)\<close> task 7 is in the parent set of its current epoch, and the process has
  no watch at all: the report of a set on the child-meta path of task 7 reaches no
  callback.
\<close>

theorem readiness_current_epoch_counterexample:
  "case start (exampleFramework (\<lambda>e. if e = 1 then [7] else []) (\<lambda>_. [])) emptyWorld of
     Inl err \<Rightarrow> False
   | Inr (fB', wB') \<Rightarrow>
       epoch (SetEpoch 1 fB') = 1 \<and>
       7 \<in> set (GetParents (topology (SetEpoch 1 fB')) (epoch (SetEpoch 1 fB'))) \<and>
       goroutines wB' = [GoHttpServerForDataRequest, GoDataResponseEventLoop] \<and>
       stops (SetEpoch 1 fB') = [] \<and>
       deliver wB' (MakeChildMetaPath ''job'' 7)
         [snd (notification (OpSet (MakeChildMetaPath ''job'' 7) ''ready'' 0) 9 8)] = []"
  by (simp add: example_defs SetEpoch_def deliver_def)

end
